theory Spec2Isabelle
  imports Complex_Main
begin

section \<open>Python values, exceptions and the user interface\<close>

text \<open>
  The repository holds four Streamlit scripts: \<^verbatim>\<open>pag/penguins.py\<close>,
  \<^verbatim>\<open>pag/titanic.py\<close>, \<^verbatim>\<open>pages/diabetes.py\<close> and the prototype
  \<^verbatim>\<open>app.py\<close>. Each one collects widget values, calls a pre-trained model and
  writes elements to the page. The model artifact, the widget values and the
  filesystem are external, so they are parameters of the embedding. Everything the
  scripts do to the outside (page elements, calls of the model) is appended to a trace,
  in program order, and every exception is a value.

  Python floats are modelled as \<^typ>\<open>real\<close>: the scripts only compare them with
  constants and pass them on. Python strings are byte strings in UTF-8, so a character
  outside ASCII is spelled as its bytes.
\<close>

datatype error =
    KeyError string
  | IndexError string
  | TypeError string
  | FileNotFoundError string
  | ValueError string
  | RuntimeError string

text \<open>
  These are exceptions of the class \<^verbatim>\<open>Exception\<close>, the ones an
  \<^verbatim>\<open>except Exception\<close> clause catches. \<^verbatim>\<open>str(e)\<close> is the text an exception
  carries.
\<close>

fun exc_str :: "error \<Rightarrow> string" where
  "exc_str (KeyError m) = m"
| "exc_str (IndexError m) = m"
| "exc_str (TypeError m) = m"
| "exc_str (FileNotFoundError m) = m"
| "exc_str (ValueError m) = m"
| "exc_str (RuntimeError m) = m"

text \<open>
  A label as a model returns it: \<^verbatim>\<open>None\<close>, a boolean, an integer or a string
  (numpy scalars behave as the Python values of the same kind).
\<close>

datatype pyval = PNone | PBool bool | PInt int | PStr string

text \<open>Truthiness, as \<^verbatim>\<open>if prediction:\<close> tests it.\<close>

fun truthy :: "pyval \<Rightarrow> bool" where
  "truthy PNone = False"
| "truthy (PBool b) = b"
| "truthy (PInt i) = (i \<noteq> 0)"
| "truthy (PStr s) = (s \<noteq> [])"

text \<open>\<^verbatim>\<open>prediction == 1\<close>: Python compares booleans as the integers 0 and 1.\<close>

fun py_eq_int :: "pyval \<Rightarrow> int \<Rightarrow> bool" where
  "py_eq_int (PInt i) n = (i = n)"
| "py_eq_int (PBool b) n = ((if b then 1 else 0) = n)"
| "py_eq_int PNone n = False"
| "py_eq_int (PStr s) n = False"

fun string_of_nat :: "nat \<Rightarrow> string" where
  "string_of_nat n =
     (if n < 10 then [char_of (48 + n)]
      else string_of_nat (n div 10) @ [char_of (48 + n mod 10)])"

definition string_of_int :: "int \<Rightarrow> string" where
  "string_of_int i =
     (if i < 0 then CHR ''-'' # string_of_nat (nat (- i)) else string_of_nat (nat i))"

text \<open>\<^verbatim>\<open>str(v)\<close>, as an f-string interpolates a value.\<close>

fun py_str :: "pyval \<Rightarrow> string" where
  "py_str PNone = ''None''"
| "py_str (PBool b) = (if b then ''True'' else ''False'')"
| "py_str (PInt i) = string_of_int i"
| "py_str (PStr s) = s"

text \<open>
  Blocks of static explanatory text (introductions, instructions, side bars) are
  named, not transcribed: no rule of the scripts reads them.
\<close>

datatype static_text =
    PenguinsIntro | PenguinsHowTo | PenguinsAbout
  | TitanicIntro | TitanicHowTo | TitanicAbout
  | DiabetesIntro | DiabetesHowTo | DiabetesAbout | DiabetesRecommendations

text \<open>
  The trace. \<open>'r\<close> is the type of a row of the table handed to the model; a table
  (\<^verbatim>\<open>pd.DataFrame\<close>) is the list of its rows. \<open>Metric\<close> carries the number that the
  script formats to one decimal, and the two summaries carry the values the script
  interpolates.
\<close>

datatype 'r event =
    PageConfig string
  | Title string
  | Text string
  | Markdown string
  | StaticMarkdown static_text
  | Subheader string
  | Expander string static_text
  | Sidebar static_text
  | Input string
  | Spinner string
  | Error string
  | Success string
  | Info string
  | InfoStatic static_text
  | Metric string real
  | PassengerSummary int string int string
  | FamilySummary int real
  | Write string
  | WriteSum string int
  | Print string
  | Predict "'r list"
  | PredictProba "'r list"

type_synonym 'r trace = "'r event list"

text \<open>
  What a function that may raise leaves behind: the trace up to its end or up to the
  raise, and the exception that left it, if any.
\<close>

type_synonym 'r outcome = "'r trace \<times> error option"

text \<open>The tables \<^verbatim>\<open>predict\<close> was called with, in the order of the calls.\<close>

definition predict_calls :: "'r trace \<Rightarrow> 'r list list" where
  "predict_calls s = concat (map (\<lambda>ev. case ev of Predict df \<Rightarrow> [df] | _ \<Rightarrow> []) s)"

text \<open>The texts of the error elements (\<^verbatim>\<open>st.error\<close>) of a trace, in order.\<close>

definition error_elements :: "'r trace \<Rightarrow> string list" where
  "error_elements s = concat (map (\<lambda>ev. case ev of Error msg \<Rightarrow> [msg] | _ \<Rightarrow> []) s)"

text \<open>
  The handle of a loaded model: \<^verbatim>\<open>predict\<close> and \<^verbatim>\<open>predict_proba\<close> take a table
  and either raise or return one entry per row.
\<close>

record 'r model =
  predict :: "'r list \<Rightarrow> error + pyval list"
  predict_proba :: "'r list \<Rightarrow> error + real list list"

text \<open>\<^verbatim>\<open>xs[0]\<close> and \<^verbatim>\<open>xs[1]\<close> raise IndexError out of range.\<close>

definition index0 :: "'a list \<Rightarrow> error + 'a" where
  "index0 xs = (case xs of [] \<Rightarrow> Inl (IndexError ''index 0 is out of bounds'') | x # _ \<Rightarrow> Inr x)"

definition index1 :: "'a list \<Rightarrow> error + 'a" where
  "index1 xs =
     (case xs of
        _ # y # _ \<Rightarrow> Inr y
      | _ \<Rightarrow> Inl (IndexError ''index 1 is out of bounds''))"

text \<open>UTF-8 bytes of the symbols the messages use.\<close>

definition warning_sign :: string where
  "warning_sign = [CHR 0xE2, CHR 0x9A, CHR 0xA0, CHR 0xEF, CHR 0xB8, CHR 0x8F]"

definition geq_sign :: string where
  "geq_sign = [CHR 0xE2, CHR 0x89, CHR 0xA5]"

definition check_mark :: string where
  "check_mark = [CHR 0xE2, CHR 0x9C, CHR 0x85]"

definition target_sign :: string where
  "target_sign = [CHR 0xF0, CHR 0x9F, CHR 0x8E, CHR 0xAF]"

definition magnifier_sign :: string where
  "magnifier_sign = [CHR 0xF0, CHR 0x9F, CHR 0x94, CHR 0x8D]"

section \<open>pages/diabetes.py\<close>

record diabetes_features =
  Pregnancies :: int
  Glucose :: int
  BloodPressure :: int
  SkinThickness :: int
  Insulin :: int
  BMI :: real
  DiabetesPedigreeFunction :: real
  Age :: int

definition high_glucose_msg :: string where
  "high_glucose_msg = warning_sign @ '' High glucose level indicates increased risk''"

definition borderline_glucose_msg :: string where
  "borderline_glucose_msg = warning_sign @ '' Borderline glucose level''"

definition obesity_msg :: string where
  "obesity_msg = warning_sign @ '' BMI indicates obesity (BMI '' @ geq_sign @ '' 30)''"

definition overweight_msg :: string where
  "overweight_msg = warning_sign @ '' BMI indicates overweight (BMI 25-29.9)''"

definition blood_pressure_msg :: string where
  "blood_pressure_msg = warning_sign @ '' Elevated blood pressure''"

definition age_msg :: string where
  "age_msg = warning_sign @ '' Age is a risk factor ('' @ geq_sign @ '' 45 years)''"

definition family_history_msg :: string where
  "family_history_msg = warning_sign @ '' Strong family history of diabetes''"

text \<open>
  \<^verbatim>\<open>assess_risk_factors\<close>: five rules in sequence, each appending at most one line.
  The glucose rule and the BMI rule are \<^verbatim>\<open>if/elif\<close> pairs.
\<close>

definition assess_risk_factors :: "diabetes_features \<Rightarrow> string list" where
  "assess_risk_factors input_data =
     (let risk_factors = [];
          risk_factors =
            (if Glucose input_data \<ge> 140 then risk_factors @ [high_glucose_msg]
             else if Glucose input_data \<ge> 100 then risk_factors @ [borderline_glucose_msg]
             else risk_factors);
          risk_factors =
            (if BMI input_data \<ge> 30 then risk_factors @ [obesity_msg]
             else if BMI input_data \<ge> 25 then risk_factors @ [overweight_msg]
             else risk_factors);
          risk_factors =
            (if BloodPressure input_data \<ge> 90 then risk_factors @ [blood_pressure_msg]
             else risk_factors);
          risk_factors =
            (if Age input_data \<ge> 45 then risk_factors @ [age_msg]
             else risk_factors);
          risk_factors =
            (if DiabetesPedigreeFunction input_data \<ge> 0.8
             then risk_factors @ [family_history_msg]
             else risk_factors)
      in risk_factors)"


text \<open>What the widgets of \<^verbatim>\<open>get_patient_input\<close> return, and the button.\<close>

record diabetes_ui =
  d_pregnancies :: int
  d_glucose :: int
  d_blood_pressure :: int
  d_skin_thickness :: int
  d_insulin :: int
  d_bmi :: real
  d_diabetes_pedigree :: real
  d_age :: int
  d_analyze :: bool

text \<open>The bounds the widgets are created with: a widget returns a value inside them.\<close>

definition diabetes_ui_valid :: "diabetes_ui \<Rightarrow> bool" where
  "diabetes_ui_valid ui =
     (0 \<le> d_pregnancies ui \<and> d_pregnancies ui \<le> 20 \<and>
      0 \<le> d_glucose ui \<and> d_glucose ui \<le> 200 \<and>
      0 \<le> d_blood_pressure ui \<and> d_blood_pressure ui \<le> 200 \<and>
      0 \<le> d_skin_thickness ui \<and> d_skin_thickness ui \<le> 100 \<and>
      0 \<le> d_insulin ui \<and> d_insulin ui \<le> 846 \<and>
      0 \<le> d_bmi ui \<and> d_bmi ui \<le> 70 \<and>
      0 \<le> d_diabetes_pedigree ui \<and> d_diabetes_pedigree ui \<le> 2.5 \<and>
      0 \<le> d_age ui \<and> d_age ui \<le> 120)"

text \<open>The environment of a page: what \<^verbatim>\<open>joblib.load\<close> does on a path.\<close>

record 'r env =
  joblib_load :: "string \<Rightarrow> error + 'r model"

definition hospital_sign :: string where
  "hospital_sign = [CHR 0xF0, CHR 0x9F, CHR 0x8F, CHR 0xA5]"

definition info_sign :: string where
  "info_sign = [CHR 0xE2, CHR 0x84, CHR 0xB9, CHR 0xEF, CHR 0xB8, CHR 0x8F]"

definition diabetes_load_model ::
  "diabetes_features env \<Rightarrow> diabetes_features trace
     \<Rightarrow> diabetes_features model option \<times> diabetes_features trace" where
  "diabetes_load_model e s =
     (case joblib_load e ''model_el.pkl'' of
        Inr m \<Rightarrow> (Some m, s)
      | Inl ex \<Rightarrow> (None, s @ [Error (''Error loading model: '' @ exc_str ex)]))"

definition diabetes_setup_page :: "diabetes_features trace \<Rightarrow> diabetes_features trace" where
  "diabetes_setup_page s =
     s @ [PageConfig ''Diabetes Risk Predictor'',
          Title (hospital_sign @ '' Diabetes Risk Predictor''),
          StaticMarkdown DiabetesIntro]"

definition get_patient_input ::
  "diabetes_ui \<Rightarrow> diabetes_features trace \<Rightarrow> diabetes_features \<times> diabetes_features trace" where
  "get_patient_input ui s =
     (let s = s @ [Subheader ''Basic Health Metrics''];
          pregnancies = d_pregnancies ui;
          s = s @ [Input ''Number of Pregnancies''];
          glucose = d_glucose ui;
          s = s @ [Input ''Glucose Level (mg/dL)''];
          blood_pressure = d_blood_pressure ui;
          s = s @ [Input ''Blood Pressure (mm Hg)''];
          skin_thickness = d_skin_thickness ui;
          s = s @ [Input ''Skin Thickness (mm)''];
          s = s @ [Subheader ''Additional Measurements''];
          insulin = d_insulin ui;
          s = s @ [Input ''Insulin Level (mu U/ml)''];
          bmi = d_bmi ui;
          s = s @ [Input ''BMI''];
          diabetes_pedigree = d_diabetes_pedigree ui;
          s = s @ [Input ''Diabetes Pedigree Function''];
          age = d_age ui;
          s = s @ [Input ''Age''];
          features =
            \<lparr>Pregnancies = pregnancies, Glucose = glucose, BloodPressure = blood_pressure,
             SkinThickness = skin_thickness, Insulin = insulin, BMI = bmi,
             DiabetesPedigreeFunction = diabetes_pedigree, Age = age\<rparr>
      in (features, s))"

text \<open>
  The \<^verbatim>\<open>except Exception\<close> clause of \<^verbatim>\<open>make_prediction\<close> in the two binary pages:
  one error element, and the pair \<^verbatim>\<open>(None, None)\<close>.
\<close>

definition prediction_failed ::
  "error \<Rightarrow> 'r trace \<Rightarrow> (pyval \<times> real list option) \<times> 'r trace" where
  "prediction_failed ex s =
     ((PNone, None), s @ [Error (''Error making prediction: '' @ exc_str ex)])"

definition diabetes_make_prediction ::
  "diabetes_features model \<Rightarrow> diabetes_features \<Rightarrow> diabetes_features trace
     \<Rightarrow> (pyval \<times> real list option) \<times> diabetes_features trace" where
  "diabetes_make_prediction m input_data s =
     (let df = [input_data];
          s = s @ [Predict df]
      in case predict m df of
           Inl ex \<Rightarrow> prediction_failed ex s
         | Inr prediction \<Rightarrow>
             (let s = s @ [PredictProba df]
              in case predict_proba m df of
                   Inl ex \<Rightarrow> prediction_failed ex s
                 | Inr probabilities \<Rightarrow>
                     (case index0 probabilities of
                        Inl ex \<Rightarrow> prediction_failed ex s
                      | Inr probability \<Rightarrow>
                          (case index0 prediction of
                             Inl ex \<Rightarrow> prediction_failed ex s
                           | Inr label \<Rightarrow> ((label, Some probability), s)))))"

definition none_not_subscriptable :: error where
  "none_not_subscriptable = TypeError ''NoneType object is not subscriptable''"

definition diabetes_display_results ::
  "pyval \<Rightarrow> real list option \<Rightarrow> diabetes_features \<Rightarrow> diabetes_features trace
     \<Rightarrow> diabetes_features outcome" where
  "diabetes_display_results prediction probability input_data s =
     (let s = s @ [Markdown ''---'', Subheader ''Risk Assessment Results'']
      in if prediction \<noteq> PNone then
           (case probability of
              None \<Rightarrow> (s, Some none_not_subscriptable)
            | Some pr \<Rightarrow>
                (case index1 pr of
                   Inl ex \<Rightarrow> (s, Some ex)
                 | Inr p1 \<Rightarrow>
                     (let risk_probability = p1 * 100;
                          s = s @ [if py_eq_int prediction 1
                                   then Error ''### Higher Risk of Diabetes''
                                   else Success ''### Lower Risk of Diabetes''];
                          s = s @ [Metric ''Risk Probability'' risk_probability];
                          s = s @ [Markdown ''### Risk Factor Analysis''];
                          risk_factors = assess_risk_factors input_data;
                          s = s @ (if risk_factors \<noteq> [] then map Markdown risk_factors
                                   else [Markdown (check_mark @
                                     '' No major risk factors identified in the provided metrics'')]);
                          s = s @ [Markdown ''### General Health Recommendations'',
                                   InfoStatic DiabetesRecommendations]
                      in (s, None))))
         else (s, None))"

text \<open>
  \<^verbatim>\<open>main\<close>. A loaded handle is an object and is truthy, so \<^verbatim>\<open>if not model\<close> is the
  test for \<^verbatim>\<open>None\<close>. An exception of \<^verbatim>\<open>display_results\<close> is not caught and
  leaves \<^verbatim>\<open>main\<close>.
\<close>

definition diabetes_main ::
  "diabetes_features env \<Rightarrow> diabetes_ui \<Rightarrow> diabetes_features outcome" where
  "diabetes_main e ui =
     (let s = diabetes_setup_page [];
          (model, s) = diabetes_load_model e s
      in case model of
           None \<Rightarrow> (s, None)
         | Some m \<Rightarrow>
             (let s = s @ [Expander (info_sign @ '' How to Use This Tool'') DiabetesHowTo];
                  (input_data, s) = get_patient_input ui s;
                  s = s @ [Input (magnifier_sign @ '' Analyze Risk'')]
              in case (if d_analyze ui then
                         (let s = s @ [Spinner ''Analyzing health metrics...''];
                              ((prediction, probability), s) =
                                 diabetes_make_prediction m input_data s
                          in diabetes_display_results prediction probability input_data s)
                       else (s, None)) of
                   (s, Some ex) \<Rightarrow> (s, Some ex)
                 | (s, None) \<Rightarrow> (s @ [Sidebar DiabetesAbout], None)))"

section \<open>pag/titanic.py\<close>

text \<open>
  The row of the Titanic table. \<^verbatim>\<open>Age\<close> is an integer on the Titanic page and a
  float in \<^verbatim>\<open>app.py\<close>, so its type is a parameter.
\<close>

record 'a passenger =
  Pclass :: int
  Sex :: string
  Age :: 'a
  SibSp :: int
  Parch :: int
  Fare :: real
  Embarked :: string


type_synonym titanic_features = "int passenger"

record titanic_ui =
  t_pclass :: int
  t_sex :: string
  t_age :: int
  t_embarked :: string
  t_sibsp :: int
  t_parch :: int
  t_fare :: real
  t_predict :: bool

text \<open>
  The options and bounds of the widgets of \<^verbatim>\<open>get_passenger_input\<close>: a select box
  or a radio group returns one of its options, a number input a value in its bounds.
\<close>

definition titanic_ui_valid :: "titanic_ui \<Rightarrow> bool" where
  "titanic_ui_valid ui =
     (t_pclass ui \<in> set [1, 2, 3] \<and>
      t_sex ui \<in> set [''male'', ''female''] \<and>
      0 \<le> t_age ui \<and> t_age ui \<le> 100 \<and>
      t_embarked ui \<in> set [''C'', ''Q'', ''S''] \<and>
      0 \<le> t_sibsp ui \<and> t_sibsp ui \<le> 8 \<and>
      0 \<le> t_parch ui \<and> t_parch ui \<le> 6 \<and>
      0 \<le> t_fare ui \<and> t_fare ui \<le> 600)"

definition ship_sign :: string where
  "ship_sign = [CHR 0xF0, CHR 0x9F, CHR 0x9A, CHR 0xA2]"

definition titanic_load_model ::
  "titanic_features env \<Rightarrow> titanic_features trace
     \<Rightarrow> titanic_features model option \<times> titanic_features trace" where
  "titanic_load_model e s =
     (case joblib_load e ''Titanic.pkl'' of
        Inr m \<Rightarrow> (Some m, s)
      | Inl ex \<Rightarrow> (None, s @ [Error (''Error loading model: '' @ exc_str ex)]))"

definition titanic_setup_page :: "titanic_features trace \<Rightarrow> titanic_features trace" where
  "titanic_setup_page s =
     s @ [Title (ship_sign @ '' Titanic Survival Predictor''), StaticMarkdown TitanicIntro]"

definition get_passenger_input ::
  "titanic_ui \<Rightarrow> titanic_features trace \<Rightarrow> titanic_features \<times> titanic_features trace" where
  "get_passenger_input ui s =
     (let s = s @ [Subheader ''Passenger Information''];
          pclass = t_pclass ui;
          s = s @ [Input ''Passenger Class''];
          sex = t_sex ui;
          s = s @ [Input ''Sex''];
          age = t_age ui;
          s = s @ [Input ''Age''];
          embarked = t_embarked ui;
          s = s @ [Input ''Port of Embarkation''];
          s = s @ [Subheader ''Family Information & Fare''];
          sibsp = t_sibsp ui;
          s = s @ [Input ''Number of Siblings/Spouses Aboard''];
          parch = t_parch ui;
          s = s @ [Input ''Number of Parents/Children Aboard''];
          fare = t_fare ui;
          s = s @ [Input (''Ticket Fare (in '' @ [CHR 0xC2, CHR 0xA3] @ '')'')];
          features =
            \<lparr>Pclass = pclass, Sex = sex, Age = age, SibSp = sibsp, Parch = parch,
             Fare = fare, Embarked = embarked\<rparr>
      in (features, s))"

definition titanic_make_prediction ::
  "titanic_features model \<Rightarrow> titanic_features \<Rightarrow> titanic_features trace
     \<Rightarrow> (pyval \<times> real list option) \<times> titanic_features trace" where
  "titanic_make_prediction m input_data s =
     (let df = [input_data];
          s = s @ [Predict df]
      in case predict m df of
           Inl ex \<Rightarrow> prediction_failed ex s
         | Inr prediction \<Rightarrow>
             (let s = s @ [PredictProba df]
              in case predict_proba m df of
                   Inl ex \<Rightarrow> prediction_failed ex s
                 | Inr probabilities \<Rightarrow>
                     (case index0 probabilities of
                        Inl ex \<Rightarrow> prediction_failed ex s
                      | Inr probability \<Rightarrow>
                          (case index0 prediction of
                             Inl ex \<Rightarrow> prediction_failed ex s
                           | Inr label \<Rightarrow> ((label, Some probability), s)))))"

text \<open>The dictionary \<^verbatim>\<open>class_risk\<close> of \<^verbatim>\<open>display_results\<close>.\<close>

definition class_risk_items :: "(int \<times> string) list" where
  "class_risk_items =
     [(1, ''Higher chance of survival in 1st class''),
      (2, ''Moderate chance of survival in 2nd class''),
      (3, ''Lower chance of survival in 3rd class'')]"

definition class_risk :: "int \<rightharpoonup> string" where
  "class_risk = map_of class_risk_items"

definition female_msg :: string where
  "female_msg = ''Being female significantly increased survival chances''"

definition male_msg :: string where
  "male_msg = ''Being male significantly decreased survival chances''"

definition children_msg :: string where
  "children_msg = ''Children had better survival chances''"

definition alone_msg :: string where
  "alone_msg = ''Traveling alone affected survival chances''"

definition large_family_msg :: string where
  "large_family_msg = ''Large family groups had more difficulty staying together''"

text \<open>
  The list \<^verbatim>\<open>factors\<close> that \<^verbatim>\<open>display_results\<close> builds (lines 138 to 163 of
  \<^verbatim>\<open>titanic.py\<close>); \<^verbatim>\<open>class_risk[...]\<close> raises KeyError on a class that is no key.
\<close>

definition survival_factors :: "titanic_features \<Rightarrow> error + string list" where
  "survival_factors input_data =
     (let factors = []
      in case class_risk (Pclass input_data) of
           None \<Rightarrow> Inl (KeyError (string_of_int (Pclass input_data)))
         | Some line \<Rightarrow>
             (let factors = factors @ [line];
                  factors =
                    (if Sex input_data = ''female'' then factors @ [female_msg]
                     else factors @ [male_msg]);
                  factors =
                    (if Age input_data < 18 then factors @ [children_msg] else factors);
                  total_family = SibSp input_data + Parch input_data;
                  factors =
                    (if total_family = 0 then factors @ [alone_msg]
                     else if total_family > 4 then factors @ [large_family_msg]
                     else factors)
              in Inr factors))"

text \<open>
  \<^verbatim>\<open>str.lower\<close> and \<^verbatim>\<open>str.title\<close> on ASCII letters; bytes outside ASCII, which
  no option of a widget holds, are left as they are.
\<close>

definition is_upper :: "char \<Rightarrow> bool" where
  "is_upper c = (65 \<le> (of_char c :: nat) \<and> (of_char c :: nat) \<le> 90)"

definition is_lower :: "char \<Rightarrow> bool" where
  "is_lower c = (97 \<le> (of_char c :: nat) \<and> (of_char c :: nat) \<le> 122)"

definition to_lower :: "char \<Rightarrow> char" where
  "to_lower c = (if is_upper c then char_of ((of_char c :: nat) + 32) else c)"

definition to_upper :: "char \<Rightarrow> char" where
  "to_upper c = (if is_lower c then char_of ((of_char c :: nat) - 32) else c)"

definition str_lower :: "string \<Rightarrow> string" where
  "str_lower s = map to_lower s"

fun title_from :: "bool \<Rightarrow> string \<Rightarrow> string" where
  "title_from in_word [] = []"
| "title_from in_word (c # cs) =
     (if is_upper c \<or> is_lower c
      then (if in_word then to_lower c else to_upper c) # title_from True cs
      else c # title_from False cs)"

definition str_title :: "string \<Rightarrow> string" where
  "str_title s = title_from False s"

definition titanic_display_results ::
  "pyval \<Rightarrow> real list option \<Rightarrow> titanic_features \<Rightarrow> titanic_features trace
     \<Rightarrow> titanic_features outcome" where
  "titanic_display_results prediction probability input_data s =
     (let s = s @ [Markdown ''---'', Subheader ''Prediction Results'']
      in if prediction \<noteq> PNone then
           (case probability of
              None \<Rightarrow> (s, Some none_not_subscriptable)
            | Some pr \<Rightarrow>
                (case index1 pr of
                   Inl ex \<Rightarrow> (s, Some ex)
                 | Inr p1 \<Rightarrow>
                     (let survival_probability = p1 * 100;
                          s = s @ [if py_eq_int prediction 1
                                   then Success ''### Predicted: SURVIVED''
                                   else Error ''### Predicted: DID NOT SURVIVE''];
                          s = s @ [Metric ''Survival Probability'' survival_probability];
                          s = s @ [Markdown ''### Key Factors Analysis'']
                      in case survival_factors input_data of
                           Inl ex \<Rightarrow> (s, Some ex)
                         | Inr factors \<Rightarrow>
                             (let total_family = SibSp input_data + Parch input_data;
                                  s = s @ map (\<lambda>factor. Markdown (''- '' @ factor)) factors;
                                  s = s @ [Markdown ''### Passenger Summary''];
                                  s = s @ [PassengerSummary (Pclass input_data)
                                             (str_title (Sex input_data)) (Age input_data)
                                             (Embarked input_data)];
                                  s = s @ [FamilySummary total_family (Fare input_data)]
                              in (s, None)))))
         else (s, None))"

definition titanic_main ::
  "titanic_features env \<Rightarrow> titanic_ui \<Rightarrow> titanic_features outcome" where
  "titanic_main e ui =
     (let s = titanic_setup_page [];
          (model, s) = titanic_load_model e s
      in case model of
           None \<Rightarrow> (s, None)
         | Some m \<Rightarrow>
             (let s = s @ [Expander (info_sign @ '' How to Use'') TitanicHowTo];
                  (input_data, s) = get_passenger_input ui s;
                  s = s @ [Input (magnifier_sign @ '' Predict Survival'')]
              in case (if t_predict ui then
                         (let s = s @ [Spinner ''Analyzing passenger data...''];
                              ((prediction, probability), s) =
                                 titanic_make_prediction m input_data s
                          in titanic_display_results prediction probability input_data s)
                       else (s, None)) of
                   (s, Some ex) \<Rightarrow> (s, Some ex)
                 | (s, None) \<Rightarrow> (s @ [Sidebar TitanicAbout], None)))"


section \<open>pag/penguins.py\<close>

record penguin_features =
  bill_length_mm :: real
  bill_depth_mm :: real
  flipper_length_mm :: int
  body_mass_g :: int
  sex :: string
  island :: string

record penguins_ui =
  p_bill_length :: real
  p_bill_depth :: real
  p_flipper_length :: int
  p_body_mass :: int
  p_sex :: string
  p_island :: string
  p_predict :: bool

definition penguins_ui_valid :: "penguins_ui \<Rightarrow> bool" where
  "penguins_ui_valid ui =
     (30 \<le> p_bill_length ui \<and> p_bill_length ui \<le> 60 \<and>
      13 \<le> p_bill_depth ui \<and> p_bill_depth ui \<le> 22 \<and>
      170 \<le> p_flipper_length ui \<and> p_flipper_length ui \<le> 240 \<and>
      2700 \<le> p_body_mass ui \<and> p_body_mass ui \<le> 6300 \<and>
      p_sex ui \<in> set [''Male'', ''Female''] \<and>
      p_island ui \<in> set [''Torgersen'', ''Biscoe'', ''Dream''])"

definition penguin_sign :: string where
  "penguin_sign = [CHR 0xF0, CHR 0x9F, CHR 0x90, CHR 0xA7]"

definition penguins_load_model ::
  "penguin_features env \<Rightarrow> penguin_features trace
     \<Rightarrow> penguin_features model option \<times> penguin_features trace" where
  "penguins_load_model e s =
     (case joblib_load e ''Penguins.pkl'' of
        Inr m \<Rightarrow> (Some m, s)
      | Inl ex \<Rightarrow> (None, s @ [Error (''Error loading model: '' @ exc_str ex)]))"

definition penguins_setup_page :: "penguin_features trace \<Rightarrow> penguin_features trace" where
  "penguins_setup_page s =
     s @ [Title (penguin_sign @ '' Palmer Penguins Species Predictor''),
          StaticMarkdown PenguinsIntro]"

definition get_user_input ::
  "penguins_ui \<Rightarrow> penguin_features trace \<Rightarrow> penguin_features \<times> penguin_features trace" where
  "get_user_input ui s =
     (let s = s @ [Subheader ''Physical Measurements''];
          bill_length = p_bill_length ui;
          s = s @ [Input ''Bill Length (mm)''];
          bill_depth = p_bill_depth ui;
          s = s @ [Input ''Bill Depth (mm)''];
          flipper_length = p_flipper_length ui;
          s = s @ [Input ''Flipper Length (mm)''];
          s = s @ [Subheader ''Additional Information''];
          body_mass = p_body_mass ui;
          s = s @ [Input ''Body Mass (g)''];
          sex = p_sex ui;
          s = s @ [Input ''Sex''];
          island = p_island ui;
          s = s @ [Input ''Island'']
      in (\<lparr>bill_length_mm = bill_length, bill_depth_mm = bill_depth,
           flipper_length_mm = flipper_length, body_mass_g = body_mass,
           sex = str_lower sex, island = island\<rparr>, s))"

text \<open>\<^verbatim>\<open>make_prediction\<close> of the penguin page returns the label alone.\<close>

definition penguins_prediction_failed :: "error \<Rightarrow> 'r trace \<Rightarrow> pyval \<times> 'r trace" where
  "penguins_prediction_failed ex s =
     (PNone, s @ [Error (''Error making prediction: '' @ exc_str ex)])"

definition penguins_make_prediction ::
  "penguin_features model \<Rightarrow> penguin_features \<Rightarrow> penguin_features trace
     \<Rightarrow> pyval \<times> penguin_features trace" where
  "penguins_make_prediction m input_data s =
     (let df = [input_data];
          s = s @ [Predict df]
      in case predict m df of
           Inl ex \<Rightarrow> penguins_prediction_failed ex s
         | Inr prediction \<Rightarrow>
             (case index0 prediction of
                Inl ex \<Rightarrow> penguins_prediction_failed ex s
              | Inr label \<Rightarrow> (label, s)))"

text \<open>The dictionary \<^verbatim>\<open>species_info\<close>: description and fun fact of a species.\<close>

definition species_info :: "string \<rightharpoonup> string \<times> string" where
  "species_info =
     map_of
       [(''Adelie'',
          (''Adelie penguins are the smallest of the Palmer penguins, known for their distinctive white ring around their eyes.'',
           ''They can swim up to 45 miles per hour!'')),
        (''Gentoo'',
          (''Gentoo penguins are the largest of the Palmer penguins, recognized by their bright orange-red bill and white stripe across the top of their head.'',
           ''They're the fastest underwater swimming penguins, reaching speeds of 22 mph!'')),
        (''Chinstrap'',
          (''Chinstrap penguins are named for the narrow black band under their heads, making them appear to wear a tiny black helmet.'',
           ''They make nests out of small stones and can be quite aggressive in defending them!''))]"

text \<open>\<^verbatim>\<open>prediction in species_info\<close>: only a string can equal a key.\<close>

fun species_lookup :: "pyval \<Rightarrow> (string \<times> string) option" where
  "species_lookup (PStr k) = species_info k"
| "species_lookup PNone = None"
| "species_lookup (PBool b) = None"
| "species_lookup (PInt i) = None"

definition penguins_display_results ::
  "pyval \<Rightarrow> penguin_features trace \<Rightarrow> penguin_features trace" where
  "penguins_display_results prediction s =
     (let s = s @ [Markdown ''---'', Subheader ''Prediction Results'']
      in if truthy prediction then
           (let s = s @ [Success (target_sign @ '' This penguin is predicted to be a **'' @
                           py_str prediction @ ''** penguin!'')]
            in case species_lookup prediction of
                 Some (description, fun_fact) \<Rightarrow>
                   s @ [Info (''**About '' @ py_str prediction @ '' Penguins:**'' @
                              [CHR 0x0A, CHR 0x0A] @ description),
                        Markdown (''**Fun Fact:** '' @ fun_fact)]
               | None \<Rightarrow> s)
         else s)"

text \<open>
  \<^verbatim>\<open>main\<close> of the penguin page. None of the functions it calls can raise, so its
  result is the trace alone.
\<close>

definition penguins_main :: "penguin_features env \<Rightarrow> penguins_ui \<Rightarrow> penguin_features trace" where
  "penguins_main e ui =
     (let s = penguins_setup_page [];
          (model, s) = penguins_load_model e s
      in case model of
           None \<Rightarrow> s
         | Some m \<Rightarrow>
             (let s = s @ [Expander ''How to Use This App'' PenguinsHowTo];
                  (input_data, s) = get_user_input ui s;
                  s = s @ [Input (magnifier_sign @ '' Predict Species'')];
                  s = (if p_predict ui then
                         (let (prediction, s) = penguins_make_prediction m input_data s
                          in penguins_display_results prediction s)
                       else s)
              in s @ [Sidebar PenguinsAbout]))"

section \<open>app.py\<close>

text \<open>
  The prototype reads its artifact with \<^verbatim>\<open>jbl.load(open('titanic_pipe.pkl'))\<close>.
  \<^verbatim>\<open>open\<close> is called without a mode, so when the file exists the handle is a text
  handle. \<^verbatim>\<open>joblib.load\<close> reads bytes: on a text handle it raises for every file
  (the pickle does not decode as text, or the prefix it reads is a \<^verbatim>\<open>str\<close> that
  cannot be compared with joblib's byte prefixes). Which exception that is depends on
  the file, so it is a parameter, as are \<^verbatim>\<open>open\<close> and numpy's \<^verbatim>\<open>astype(int)\<close>.
\<close>

datatype text_file = TextFile string

record app_env =
  open_text :: "string \<Rightarrow> error + text_file"
  text_load_error :: "text_file \<Rightarrow> error"
  astype_int :: "pyval list \<Rightarrow> error + int list"

definition jbl_load :: "app_env \<Rightarrow> text_file \<Rightarrow> error + real passenger model" where
  "jbl_load e f = Inl (text_load_error e f)"

record app_ui =
  a_age :: real
  a_num1 :: int
  a_num2 :: int
  a_show :: bool

definition somma :: "int \<Rightarrow> int \<Rightarrow> int" where
  "somma l1 l2 = (let a = l1 + l2 in a)"

definition classes :: "int \<rightharpoonup> string" where
  "classes = map_of [(0, ''died''), (1, ''survived'')]"

text \<open>
  \<^verbatim>\<open>main\<close> of \<^verbatim>\<open>app.py\<close>. It has no \<^verbatim>\<open>try\<close>: an exception of \<^verbatim>\<open>open\<close>, of the
  load, of \<^verbatim>\<open>predict\<close>, of the conversion, of \<^verbatim>\<open>[0]\<close> or of \<^verbatim>\<open>classes[res]\<close>
  leaves \<^verbatim>\<open>main\<close>. The bare expression \<^verbatim>\<open>y_pred\<close> is written to the page.
\<close>

definition app_main :: "app_env \<Rightarrow> app_ui \<Rightarrow> real passenger outcome" where
  "app_main e ui =
     (let s = [Title ''Pipeline streamlit'', Text ''proviamo questo front-end'']
      in case open_text e ''titanic_pipe.pkl'' of
           Inl ex \<Rightarrow> (s, Some ex)
         | Inr f \<Rightarrow>
        (case jbl_load e f of
           Inl ex \<Rightarrow> (s, Some ex)
         | Inr m \<Rightarrow>
             (let age = a_age ui;
                  s = s @ [Input ''inserisci gli anni''];
                  input_df =
                    [\<lparr>Pclass = 3, Sex = ''female'', Age = age, SibSp = 0, Parch = 0,
                      Fare = 7.8, Embarked = ''Q''\<rparr>];
                  s = s @ [Predict input_df]
              in case predict m input_df of
                   Inl ex \<Rightarrow> (s, Some ex)
                 | Inr labels \<Rightarrow>
                     (case astype_int e labels of
                        Inl ex \<Rightarrow> (s, Some ex)
                      | Inr ints \<Rightarrow>
                          (case index0 ints of
                             Inl ex \<Rightarrow> (s, Some ex)
                           | Inr res \<Rightarrow>
                               (let s = s @ [Print (string_of_int res)]
                                in case classes res of
                                     None \<Rightarrow> (s, Some (KeyError (string_of_int res)))
                                   | Some y_pred \<Rightarrow>
                                       (let s = s @ [Write y_pred];
                                            num1 = a_num1 ui;
                                            s = s @ [Input ''Inserisci lato1 rettandolo''];
                                            num2 = a_num2 ui;
                                            s = s @ [Input ''Inserisci lato2 rettangolo''];
                                            r = somma num1 num2;
                                            s = s @ [Input ''mostra risultato''];
                                            s = (if a_show ui
                                                 then s @ [WriteSum (''la somma '' @ [CHR 0xC3, CHR 0xA8]) r]
                                                 else s)
                                        in (s, None))))))))"

section \<open>Default inputs and sample models\<close>

text \<open>The values the widgets of each page start with (\<^verbatim>\<open>value=\<close>, or the first option).\<close>

definition diabetes_defaults :: diabetes_ui where
  "diabetes_defaults =
     \<lparr>d_pregnancies = 0, d_glucose = 85, d_blood_pressure = 70, d_skin_thickness = 20,
      d_insulin = 79, d_bmi = 23, d_diabetes_pedigree = 0.32, d_age = 30,
      d_analyze = True\<rparr>"

definition titanic_defaults :: titanic_ui where
  "titanic_defaults =
     \<lparr>t_pclass = 1, t_sex = ''male'', t_age = 30, t_embarked = ''C'', t_sibsp = 0,
      t_parch = 0, t_fare = 32, t_predict = True\<rparr>"

definition penguins_defaults :: penguins_ui where
  "penguins_defaults =
     \<lparr>p_bill_length = 45, p_bill_depth = 17, p_flipper_length = 200, p_body_mass = 4000,
      p_sex = ''Male'', p_island = ''Torgersen'', p_predict = True\<rparr>"

text \<open>The record the diabetes page builds from its defaults.\<close>

definition default_patient :: diabetes_features where
  "default_patient = fst (get_patient_input diabetes_defaults [])"

text \<open>
  The Titanic scenario: first class, female, ten years old, travelling alone, fare 50,
  embarked at Southampton, and the button pressed.
\<close>

definition scenario_ui :: titanic_ui where
  "scenario_ui =
     \<lparr>t_pclass = 1, t_sex = ''female'', t_age = 10, t_embarked = ''S'', t_sibsp = 0,
      t_parch = 0, t_fare = 50, t_predict = True\<rparr>"

definition scenario_passenger :: titanic_features where
  "scenario_passenger =
     \<lparr>Pclass = 1, Sex = ''female'', Age = 10, SibSp = 0, Parch = 0, Fare = 50,
      Embarked = ''S''\<rparr>"

definition default_passenger :: titanic_features where
  "default_passenger = fst (get_passenger_input titanic_defaults [])"

definition default_penguin :: penguin_features where
  "default_penguin = fst (get_user_input penguins_defaults [])"

text \<open>
  Sample models: one that answers every row with the same label and probabilities, one
  whose \<^verbatim>\<open>predict\<close> raises, one whose \<^verbatim>\<open>predict_proba\<close> raises.
\<close>

definition constant_model :: "pyval \<Rightarrow> real list \<Rightarrow> 'r model" where
  "constant_model label pr =
     \<lparr>predict = (\<lambda>df. Inr (map (\<lambda>_. label) df)),
      predict_proba = (\<lambda>df. Inr (map (\<lambda>_. pr) df))\<rparr>"

definition raising_model :: "error \<Rightarrow> 'r model" where
  "raising_model ex = \<lparr>predict = (\<lambda>df. Inl ex), predict_proba = (\<lambda>df. Inl ex)\<rparr>"

definition proba_raising_model :: "pyval \<Rightarrow> error \<Rightarrow> 'r model" where
  "proba_raising_model label ex =
     \<lparr>predict = (\<lambda>df. Inr (map (\<lambda>_. label) df)), predict_proba = (\<lambda>df. Inl ex)\<rparr>"

text \<open>Sample environments: the artifact is there, or it is missing.\<close>

definition env_with :: "'r model \<Rightarrow> 'r env" where
  "env_with m = \<lparr>joblib_load = (\<lambda>path. Inr m)\<rparr>"

definition env_missing :: "'r env" where
  "env_missing =
     \<lparr>joblib_load = (\<lambda>path. Inl (FileNotFoundError (''No such file or directory: '' @ path)))\<rparr>"

text \<open>
  A sample of \<^verbatim>\<open>astype(int)\<close>: integers stay, booleans become 0 and 1, and the
  sample raises on anything else.
\<close>

fun int_of_label :: "pyval \<Rightarrow> error + int" where
  "int_of_label (PInt i) = Inr i"
| "int_of_label (PBool b) = Inr (if b then 1 else 0)"
| "int_of_label PNone = Inl (TypeError ''int() argument must be a number, not NoneType'')"
| "int_of_label (PStr s) = Inl (ValueError (''invalid literal for int(): '' @ s))"

fun sample_astype_int :: "pyval list \<Rightarrow> error + int list" where
  "sample_astype_int [] = Inr []"
| "sample_astype_int (v # vs) =
     (case int_of_label v of
        Inl ex \<Rightarrow> Inl ex
      | Inr i \<Rightarrow> (case sample_astype_int vs of Inl ex \<Rightarrow> Inl ex | Inr is \<Rightarrow> Inr (i # is)))"

text \<open>
  Sample environments of \<^verbatim>\<open>app.py\<close>: the artifact is missing, so \<^verbatim>\<open>open\<close> raises;
  or it is there, \<^verbatim>\<open>open\<close> returns a text handle and the load raises on it.
\<close>

definition app_env_missing :: app_env where
  "app_env_missing =
     \<lparr>open_text =
        (\<lambda>path. Inl (FileNotFoundError (''No such file or directory: '' @ path))),
      text_load_error =
        (\<lambda>f. TypeError ''startswith first arg must be str or a tuple of str, not bytes''),
      astype_int = sample_astype_int\<rparr>"



section \<open>Risk factors of the diabetes page\<close>

lemmas risk_msg_defs =
  high_glucose_msg_def borderline_glucose_msg_def obesity_msg_def overweight_msg_def
  blood_pressure_msg_def age_msg_def family_history_msg_def warning_sign_def geq_sign_def

lemma default_patient_eq:
  "default_patient =
     \<lparr>Pregnancies = 0, Glucose = 85, BloodPressure = 70, SkinThickness = 20, Insulin = 79,
      BMI = 23, DiabetesPedigreeFunction = 0.32, diabetes_features.Age = 30\<rparr>"
  by (simp add: default_patient_def get_patient_input_def diabetes_defaults_def Let_def)

text \<open>
  C1, as stated, fails: at glucose 139 the list holds the borderline-glucose line, and
  at glucose 140 that line is gone, because the two glucose lines are the branches of
  one \<^verbatim>\<open>if/elif\<close>. The default patient shows it.
\<close>

theorem glucose_139_140_counterexample:
  "\<not> (high_glucose_msg \<in> set (assess_risk_factors (default_patient\<lparr>Glucose := 140\<rparr>)) \<and>
      set (assess_risk_factors (default_patient\<lparr>Glucose := 139\<rparr>))
        \<subseteq> set (assess_risk_factors (default_patient\<lparr>Glucose := 140\<rparr>)))"
  by (simp add: default_patient_eq assess_risk_factors_def Let_def risk_msg_defs)

text \<open>
  C1, amended: for every record, raising the glucose level from 139 to 140 replaces the
  borderline-glucose line, the first of the list, by the high-glucose line, which was
  not in the list before, and leaves every other line as it was, in the same order.
\<close>

theorem glucose_139_140_replaces_borderline:
  "\<exists>rest.
     assess_risk_factors (r\<lparr>Glucose := 139\<rparr>) = borderline_glucose_msg # rest \<and>
     assess_risk_factors (r\<lparr>Glucose := 140\<rparr>) = high_glucose_msg # rest \<and>
     high_glucose_msg \<notin> set rest \<and> borderline_glucose_msg \<notin> set rest"
  by (simp add: assess_risk_factors_def Let_def risk_msg_defs)

text \<open>
  C4: a record with glucose 150, BMI 32, blood pressure 70 and age 50 yields the
  high-glucose line, the obesity line and the age line, in this order; the only other
  line it can yield is the family-history line, after them.
\<close>

theorem scenario_diabetes_risk_factors:
  assumes "Glucose r = 150" and "BMI r = 32" and "BloodPressure r = 70"
    and "diabetes_features.Age r = 50"
  shows "assess_risk_factors r =
           [high_glucose_msg, obesity_msg, age_msg] @
           (if DiabetesPedigreeFunction r \<ge> 0.8 then [family_history_msg] else [])"
  using assms by (simp add: assess_risk_factors_def Let_def)

theorem scenario_diabetes_risk_factors_witness:
  "assess_risk_factors
     (default_patient\<lparr>Glucose := 150, BMI := 32, BloodPressure := 70,
        diabetes_features.Age := 50\<rparr>)
   = [high_glucose_msg, obesity_msg, age_msg]"
  using scenario_diabetes_risk_factors
    [of "default_patient\<lparr>Glucose := 150, BMI := 32, BloodPressure := 70,
           diabetes_features.Age := 50\<rparr>"]
  by (simp add: default_patient_eq)


section \<open>Counting the calls of the model\<close>

lemma predict_calls_append: "predict_calls (s @ t) = predict_calls s @ predict_calls t"
  by (simp add: predict_calls_def)

lemma predict_calls_Nil: "predict_calls [] = []"
  by (simp add: predict_calls_def)

lemma predict_calls_Cons:
  "predict_calls (ev # s) = (case ev of Predict df \<Rightarrow> [df] | _ \<Rightarrow> []) @ predict_calls s"
  by (simp add: predict_calls_def)

lemma predict_calls_Markdown: "predict_calls (map (\<lambda>f. Markdown (g f)) fs) = []"
  by (induction fs) (simp_all add: predict_calls_def)

lemmas calls_simps =
  predict_calls_append predict_calls_Nil predict_calls_Cons predict_calls_Markdown

lemma error_elements_append: "error_elements (s @ t) = error_elements s @ error_elements t"
  by (simp add: error_elements_def)

lemma error_elements_Nil: "error_elements [] = []"
  by (simp add: error_elements_def)

lemma error_elements_Cons:
  "error_elements (ev # s) = (case ev of Error msg \<Rightarrow> [msg] | _ \<Rightarrow> []) @ error_elements s"
  by (simp add: error_elements_def)

lemma titanic_make_prediction_calls:
  "predict_calls (snd (titanic_make_prediction m d s)) = predict_calls s @ [[d]]"
  by (simp add: titanic_make_prediction_def prediction_failed_def Let_def calls_simps
      split: sum.splits)

lemma diabetes_make_prediction_calls:
  "predict_calls (snd (diabetes_make_prediction m d s)) = predict_calls s @ [[d]]"
  by (simp add: diabetes_make_prediction_def prediction_failed_def Let_def calls_simps
      split: sum.splits)

lemma penguins_make_prediction_calls:
  "predict_calls (snd (penguins_make_prediction m d s)) = predict_calls s @ [[d]]"
  by (simp add: penguins_make_prediction_def penguins_prediction_failed_def Let_def calls_simps
      split: sum.splits)

lemma titanic_display_no_calls:
  "predict_calls (fst (titanic_display_results p pr d s)) = predict_calls s"
  by (simp add: titanic_display_results_def Let_def calls_simps
      split: option.splits sum.splits)

lemma get_passenger_input_calls:
  "predict_calls (snd (get_passenger_input ui s)) = predict_calls s"
  by (simp add: get_passenger_input_def Let_def calls_simps)

section \<open>The predictor\<close>

text \<open>
  C6: when \<^verbatim>\<open>predict\<close> raises, or \<^verbatim>\<open>predict\<close> returns and \<^verbatim>\<open>predict_proba\<close> raises,
  \<^verbatim>\<open>make_prediction\<close> of each page returns the null result (\<^verbatim>\<open>(None, None)\<close> on the
  binary pages, \<^verbatim>\<open>None\<close> on the penguin page) and adds to the trace the calls made,
  each once, and one error element with the text of the exception. The labels
  \<^verbatim>\<open>predict\<close> had returned before \<^verbatim>\<open>predict_proba\<close> raised are dropped.
\<close>

theorem inference_failure_is_caught:
  "(predict mt [dt] = Inl ex \<longrightarrow>
      titanic_make_prediction mt dt st =
        ((PNone, None),
         st @ [Predict [dt], Error (''Error making prediction: '' @ exc_str ex)])) \<and>
   (predict mt [dt] = Inr ls \<and> predict_proba mt [dt] = Inl ex \<longrightarrow>
      titanic_make_prediction mt dt st =
        ((PNone, None),
         st @ [Predict [dt], PredictProba [dt],
               Error (''Error making prediction: '' @ exc_str ex)])) \<and>
   (predict md [dd] = Inl ex \<longrightarrow>
      diabetes_make_prediction md dd sd =
        ((PNone, None),
         sd @ [Predict [dd], Error (''Error making prediction: '' @ exc_str ex)])) \<and>
   (predict md [dd] = Inr ls \<and> predict_proba md [dd] = Inl ex \<longrightarrow>
      diabetes_make_prediction md dd sd =
        ((PNone, None),
         sd @ [Predict [dd], PredictProba [dd],
               Error (''Error making prediction: '' @ exc_str ex)])) \<and>
   (predict mp [dp] = Inl ex \<longrightarrow>
      penguins_make_prediction mp dp sp =
        (PNone, sp @ [Predict [dp], Error (''Error making prediction: '' @ exc_str ex)]))"
  by (simp add: titanic_make_prediction_def diabetes_make_prediction_def
      penguins_make_prediction_def prediction_failed_def penguins_prediction_failed_def Let_def)

theorem inference_failure_is_caught_witness:
  "titanic_make_prediction (raising_model (ValueError ''bad input'')) default_passenger [] =
     ((PNone, None),
      [Predict [default_passenger], Error ''Error making prediction: bad input'']) \<and>
   titanic_make_prediction (proba_raising_model (PInt 1) (ValueError ''bad input''))
       default_passenger [] =
     ((PNone, None),
      [Predict [default_passenger], PredictProba [default_passenger],
       Error ''Error making prediction: bad input'']) \<and>
   diabetes_make_prediction (raising_model (ValueError ''bad input'')) default_patient [] =
     ((PNone, None),
      [Predict [default_patient], Error ''Error making prediction: bad input'']) \<and>
   diabetes_make_prediction (proba_raising_model (PInt 1) (ValueError ''bad input''))
       default_patient [] =
     ((PNone, None),
      [Predict [default_patient], PredictProba [default_patient],
       Error ''Error making prediction: bad input'']) \<and>
   penguins_make_prediction (raising_model (ValueError ''bad input'')) default_penguin [] =
     (PNone, [Predict [default_penguin], Error ''Error making prediction: bad input''])"
  using
    inference_failure_is_caught
      [where mt = "raising_model (ValueError ''bad input'')" and dt = default_passenger
         and md = "raising_model (ValueError ''bad input'')" and dd = default_patient
         and mp = "raising_model (ValueError ''bad input'')" and dp = default_penguin
         and ex = "ValueError ''bad input''" and st = "[]" and sd = "[]" and sp = "[]"]
    inference_failure_is_caught
      [where mt = "proba_raising_model (PInt 1) (ValueError ''bad input'')"
         and dt = default_passenger
         and md = "proba_raising_model (PInt 1) (ValueError ''bad input'')"
         and dd = default_patient
         and mp = "raising_model (ValueError ''bad input'')" and dp = default_penguin
         and ex = "ValueError ''bad input''" and ls = "[PInt 1]"
         and st = "[]" and sd = "[]" and sp = "[]"]
  by (simp add: raising_model_def proba_raising_model_def)

text \<open>
  C7: for every record, \<^verbatim>\<open>make_prediction\<close> of each page calls \<^verbatim>\<open>predict\<close> exactly
  once, on the table whose only row is that record; when \<^verbatim>\<open>predict\<close> (and, on the
  binary pages, \<^verbatim>\<open>predict_proba\<close>) returns a non-empty result, the label returned is
  the first element of the prediction.
\<close>

theorem predict_called_once_on_one_row:
  "predict_calls (snd (penguins_make_prediction mp dp sp)) = predict_calls sp @ [[dp]] \<and>
   (predict mp [dp] = Inr (l # ls) \<longrightarrow> fst (penguins_make_prediction mp dp sp) = l) \<and>
   predict_calls (snd (titanic_make_prediction mt dt st)) = predict_calls st @ [[dt]] \<and>
   (predict mt [dt] = Inr (l # ls) \<and> predict_proba mt [dt] = Inr (pr # prs) \<longrightarrow>
      fst (titanic_make_prediction mt dt st) = (l, Some pr)) \<and>
   predict_calls (snd (diabetes_make_prediction md dd sd)) = predict_calls sd @ [[dd]] \<and>
   (predict md [dd] = Inr (l # ls) \<and> predict_proba md [dd] = Inr (pr # prs) \<longrightarrow>
      fst (diabetes_make_prediction md dd sd) = (l, Some pr))"
  by (simp add: titanic_make_prediction_calls diabetes_make_prediction_calls
      penguins_make_prediction_calls)
     (simp add: titanic_make_prediction_def diabetes_make_prediction_def
      penguins_make_prediction_def Let_def index0_def)

theorem predict_called_once_on_one_row_witness:
  "predict_calls (snd (penguins_make_prediction (constant_model (PStr ''Gentoo'') [])
      default_penguin [])) = [[default_penguin]] \<and>
   fst (penguins_make_prediction (constant_model (PStr ''Gentoo'') []) default_penguin [])
     = PStr ''Gentoo'' \<and>
   predict_calls (snd (titanic_make_prediction (constant_model (PInt 1) [0.25, 0.75])
      default_passenger [])) = [[default_passenger]] \<and>
   fst (titanic_make_prediction (constant_model (PInt 1) [0.25, 0.75]) default_passenger [])
     = (PInt 1, Some [0.25, 0.75]) \<and>
   predict_calls (snd (diabetes_make_prediction (constant_model (PInt 1) [0.25, 0.75])
      default_patient [])) = [[default_patient]] \<and>
   fst (diabetes_make_prediction (constant_model (PInt 1) [0.25, 0.75]) default_patient [])
     = (PInt 1, Some [0.25, 0.75])"
  using
    predict_called_once_on_one_row
      [where mp = "constant_model (PStr ''Gentoo'') []" and dp = default_penguin
         and sp = "[]" and l = "PStr ''Gentoo''" and ls = "[]"]
    predict_called_once_on_one_row
      [where mt = "constant_model (PInt 1) [0.25, 0.75]" and dt = default_passenger
         and md = "constant_model (PInt 1) [0.25, 0.75]" and dd = default_patient
         and st = "[]" and sd = "[]" and l = "PInt 1" and ls = "[]"
         and pr = "[0.25, 0.75]" and prs = "[]"]
  by (simp add: constant_model_def predict_calls_Nil)


section \<open>The Titanic page\<close>

lemma get_passenger_scenario: "fst (get_passenger_input scenario_ui s) = scenario_passenger"
  by (simp add: get_passenger_input_def scenario_ui_def scenario_passenger_def Let_def)

lemma survival_factors_scenario:
  "survival_factors scenario_passenger =
     Inr [''Higher chance of survival in 1st class'', female_msg, children_msg, alone_msg]"
  by (simp add: survival_factors_def scenario_passenger_def class_risk_def
      class_risk_items_def Let_def)

text \<open>\<^verbatim>\<open>main\<close> with the model loaded and the button pressed, step by step.\<close>

lemma titanic_main_pressed:
  assumes "joblib_load e ''Titanic.pkl'' = Inr m" and "t_predict ui"
  shows "titanic_main e ui =
    (let input_data = fst (get_passenger_input ui []);
         s = snd (get_passenger_input ui
                (titanic_setup_page [] @ [Expander (info_sign @ '' How to Use'') TitanicHowTo]))
             @ [Input (magnifier_sign @ '' Predict Survival''),
                Spinner ''Analyzing passenger data...''];
         r = titanic_make_prediction m input_data s;
         out = titanic_display_results (fst (fst r)) (snd (fst r)) input_data (snd r)
     in case snd out of Some ex \<Rightarrow> out | None \<Rightarrow> (fst out @ [Sidebar TitanicAbout], None))"
  using assms
  by (simp add: titanic_main_def titanic_load_model_def Let_def get_passenger_input_def
      split: prod.splits option.splits)

lemma scenario_predict_once:
  assumes "joblib_load e ''Titanic.pkl'' = Inr m"
  shows "predict_calls (fst (titanic_main e scenario_ui)) = [[scenario_passenger]]"
proof -
  have pressed: "t_predict scenario_ui"
    by (simp add: scenario_ui_def)
  show ?thesis
    unfolding titanic_main_pressed [OF assms pressed] Let_def
    by (simp add: titanic_display_no_calls titanic_make_prediction_calls
        get_passenger_input_calls calls_simps titanic_setup_page_def get_passenger_scenario
        split: option.splits)
qed

lemma scenario_survived:
  assumes "joblib_load e ''Titanic.pkl'' = Inr m"
    and "predict m [scenario_passenger] = Inr (PInt 1 # ls)"
    and "predict_proba m [scenario_passenger] = Inr ((p0 # p1 # pr) # prs)"
  shows "snd (titanic_main e scenario_ui) = None \<and>
         Success ''### Predicted: SURVIVED'' \<in> set (fst (titanic_main e scenario_ui)) \<and>
         Markdown (''- '' @ children_msg) \<in> set (fst (titanic_main e scenario_ui)) \<and>
         Markdown (''- '' @ alone_msg) \<in> set (fst (titanic_main e scenario_ui))"
proof -
  have pressed: "t_predict scenario_ui"
    by (simp add: scenario_ui_def)
  have predicted: "titanic_make_prediction m scenario_passenger s =
      ((PInt 1, Some (p0 # p1 # pr)),
       s @ [Predict [scenario_passenger], PredictProba [scenario_passenger]])" for s
    using assms(2,3) by (simp add: titanic_make_prediction_def Let_def index0_def)
  have title: "str_title (Sex scenario_passenger) = ''Female''"
    by (simp add: scenario_passenger_def str_title_def to_lower_def to_upper_def
        is_upper_def is_lower_def char_of_def bit_0)
  have shown: "titanic_display_results (PInt 1) (Some (p0 # p1 # pr)) scenario_passenger s =
     (s @ [Markdown ''---'', Subheader ''Prediction Results'',
           Success ''### Predicted: SURVIVED'',
           Metric ''Survival Probability'' (p1 * 100), Markdown ''### Key Factors Analysis'',
           Markdown ''- Higher chance of survival in 1st class'',
           Markdown (''- '' @ female_msg), Markdown (''- '' @ children_msg),
           Markdown (''- '' @ alone_msg),
           Markdown ''### Passenger Summary'', PassengerSummary 1 ''Female'' 10 ''S'',
           FamilySummary 0 50], None)" for s
    by (simp add: titanic_display_results_def Let_def index1_def survival_factors_scenario
        title)
       (simp add: scenario_passenger_def)
  show ?thesis
    unfolding titanic_main_pressed [OF assms(1) pressed] Let_def get_passenger_scenario
      predicted fst_conv snd_conv shown
    by simp
qed

text \<open>
  C5: on the scenario input, with the model loaded, \<^verbatim>\<open>main\<close> calls \<^verbatim>\<open>predict\<close>
  exactly once, on the scenario record. If the predicted label is 1 (and
  \<^verbatim>\<open>predict_proba\<close> returns the two class probabilities, as a binary model does), no
  exception leaves \<^verbatim>\<open>main\<close>, the page shows SURVIVED, and the factors, which are the
  class line, the female line, the children line and the travelling-alone line, are
  shown, the children line and the travelling-alone line among them.
\<close>

theorem scenario_titanic:
  assumes "joblib_load e ''Titanic.pkl'' = Inr m"
  shows "fst (get_passenger_input scenario_ui s) = scenario_passenger \<and>
         predict_calls (fst (titanic_main e scenario_ui)) = [[scenario_passenger]] \<and>
         survival_factors scenario_passenger =
           Inr [''Higher chance of survival in 1st class'', female_msg, children_msg,
                alone_msg] \<and>
         (predict m [scenario_passenger] = Inr (PInt 1 # ls) \<and>
          predict_proba m [scenario_passenger] = Inr ((p_died # p_survived # pr) # prs) \<longrightarrow>
            snd (titanic_main e scenario_ui) = None \<and>
            Success ''### Predicted: SURVIVED'' \<in> set (fst (titanic_main e scenario_ui)) \<and>
            Markdown (''- '' @ children_msg) \<in> set (fst (titanic_main e scenario_ui)) \<and>
            Markdown (''- '' @ alone_msg) \<in> set (fst (titanic_main e scenario_ui)))"
  using scenario_predict_once [OF assms] scenario_survived [OF assms]
    get_passenger_scenario survival_factors_scenario
  by blast

theorem scenario_titanic_witness:
  "predict_calls (fst (titanic_main (env_with (constant_model (PInt 1) [0.25, 0.75]))
      scenario_ui)) = [[scenario_passenger]] \<and>
   snd (titanic_main (env_with (constant_model (PInt 1) [0.25, 0.75])) scenario_ui) = None \<and>
   Success ''### Predicted: SURVIVED''
     \<in> set (fst (titanic_main (env_with (constant_model (PInt 1) [0.25, 0.75])) scenario_ui)) \<and>
   Markdown (''- '' @ children_msg)
     \<in> set (fst (titanic_main (env_with (constant_model (PInt 1) [0.25, 0.75])) scenario_ui)) \<and>
   Markdown (''- '' @ alone_msg)
     \<in> set (fst (titanic_main (env_with (constant_model (PInt 1) [0.25, 0.75])) scenario_ui))"
  using scenario_titanic
    [where e = "env_with (constant_model (PInt 1) [0.25, 0.75])"
       and m = "constant_model (PInt 1) [0.25, 0.75]" and ls = "[]" and p_died = "0.25"
       and p_survived = "0.75" and pr = "[]" and prs = "[]"]
  by (simp add: env_with_def constant_model_def)


lemmas factor_msg_defs =
  female_msg_def male_msg_def children_msg_def alone_msg_def large_family_msg_def

text \<open>
  C9: for every record the Titanic page can build (the class is one of the three
  options), the factors list starts with the line of the passenger's class, followed by
  the line of the passenger's sex; it holds exactly one class line and exactly one sex
  line; and the travelling-alone line and the large-family line are never both in it.
\<close>

theorem factors_class_sex_family:
  assumes "titanic_ui_valid ui"
  shows "\<exists>c g rest.
           survival_factors (fst (get_passenger_input ui s)) = Inr (c # g # rest) \<and>
           class_risk (t_pclass ui) = Some c \<and>
           c \<in> snd ` set class_risk_items \<and>
           g = (if t_sex ui = ''female'' then female_msg else male_msg) \<and>
           length (filter (\<lambda>f. f \<in> snd ` set class_risk_items) (c # g # rest)) = 1 \<and>
           length (filter (\<lambda>f. f \<in> {female_msg, male_msg}) (c # g # rest)) = 1 \<and>
           \<not> (alone_msg \<in> set (c # g # rest) \<and> large_family_msg \<in> set (c # g # rest))"
proof -
  have "t_pclass ui = 1 \<or> t_pclass ui = 2 \<or> t_pclass ui = 3"
    using assms by (simp add: titanic_ui_valid_def)
  then show ?thesis
    by (elim disjE)
       (simp_all add: survival_factors_def get_passenger_input_def Let_def class_risk_def
          class_risk_items_def factor_msg_defs)
qed

theorem factors_class_sex_family_witness:
  "titanic_ui_valid titanic_defaults \<and>
   (\<exists>c g rest.
      survival_factors (fst (get_passenger_input titanic_defaults [])) = Inr (c # g # rest) \<and>
      class_risk (t_pclass titanic_defaults) = Some c \<and>
      c \<in> snd ` set class_risk_items \<and>
      g = (if t_sex titanic_defaults = ''female'' then female_msg else male_msg) \<and>
      length (filter (\<lambda>f. f \<in> snd ` set class_risk_items) (c # g # rest)) = 1 \<and>
      length (filter (\<lambda>f. f \<in> {female_msg, male_msg}) (c # g # rest)) = 1 \<and>
      \<not> (alone_msg \<in> set (c # g # rest) \<and> large_family_msg \<in> set (c # g # rest)))"
proof -
  have valid: "titanic_ui_valid titanic_defaults"
    by (simp add: titanic_ui_valid_def titanic_defaults_def)
  from factors_class_sex_family [OF valid, of "[]"] valid show ?thesis
    by blast
qed

section \<open>The input collectors\<close>

text \<open>
  C8: whatever option of the penguin page's Sex control is selected, the \<open>sex\<close> field of
  the record is the selection in lower case, that is \<open>male\<close> or \<open>female\<close>. The island
  of the penguin page, and the port and the sex of the Titanic page, are passed as
  selected, which are the spellings of the data model: Torgersen, Biscoe, Dream; C, Q,
  S; male, female.
\<close>

theorem input_casing:
  assumes "penguins_ui_valid pu" and "titanic_ui_valid tu"
  shows "sex (fst (get_user_input pu ps)) = str_lower (p_sex pu) \<and>
         sex (fst (get_user_input pu ps)) \<in> {''male'', ''female''} \<and>
         island (fst (get_user_input pu ps)) = p_island pu \<and>
         island (fst (get_user_input pu ps)) \<in> {''Torgersen'', ''Biscoe'', ''Dream''} \<and>
         Embarked (fst (get_passenger_input tu ts)) = t_embarked tu \<and>
         Embarked (fst (get_passenger_input tu ts)) \<in> {''C'', ''Q'', ''S''} \<and>
         Sex (fst (get_passenger_input tu ts)) = t_sex tu \<and>
         Sex (fst (get_passenger_input tu ts)) \<in> {''male'', ''female''}"
proof -
  have "p_sex pu = ''Male'' \<or> p_sex pu = ''Female''"
    using assms(1) by (simp add: penguins_ui_valid_def)
  then have lower: "str_lower (p_sex pu) \<in> {''male'', ''female''}"
    by (elim disjE)
       (simp_all add: str_lower_def to_lower_def is_upper_def char_of_def bit_0)
  have penguin: "sex (fst (get_user_input pu ps)) = str_lower (p_sex pu) \<and>
      island (fst (get_user_input pu ps)) = p_island pu"
    by (simp add: get_user_input_def Let_def)
  have isl: "p_island pu \<in> {''Torgersen'', ''Biscoe'', ''Dream''}"
    using assms(1) by (simp add: penguins_ui_valid_def)
  have passenger: "Embarked (fst (get_passenger_input tu ts)) = t_embarked tu \<and>
      Sex (fst (get_passenger_input tu ts)) = t_sex tu"
    by (simp add: get_passenger_input_def Let_def)
  have port: "t_embarked tu \<in> {''C'', ''Q'', ''S''} \<and> t_sex tu \<in> {''male'', ''female''}"
    using assms(2) by (simp add: titanic_ui_valid_def)
  show ?thesis
    using lower penguin isl passenger port by simp
qed

theorem input_casing_witness:
  "penguins_ui_valid (penguins_defaults\<lparr>p_sex := ''Female''\<rparr>) \<and>
   titanic_ui_valid titanic_defaults \<and>
   sex (fst (get_user_input (penguins_defaults\<lparr>p_sex := ''Female''\<rparr>) [])) = ''female'' \<and>
   island (fst (get_user_input (penguins_defaults\<lparr>p_sex := ''Female''\<rparr>) [])) = ''Torgersen'' \<and>
   Embarked (fst (get_passenger_input titanic_defaults [])) = ''C'' \<and>
   Sex (fst (get_passenger_input titanic_defaults [])) = ''male''"
proof -
  have pv: "penguins_ui_valid (penguins_defaults\<lparr>p_sex := ''Female''\<rparr>)"
    by (simp add: penguins_ui_valid_def penguins_defaults_def)
  have tv: "titanic_ui_valid titanic_defaults"
    by (simp add: titanic_ui_valid_def titanic_defaults_def)
  have low: "str_lower ''Female'' = ''female''"
    by (simp add: str_lower_def to_lower_def is_upper_def char_of_def bit_0)
  from input_casing [OF pv tv, of "[]" "[]"] pv tv show ?thesis
    by (simp add: penguins_defaults_def titanic_defaults_def low)
qed

section \<open>The renderer of the penguin page\<close>

lemma penguins_main_pressed:
  assumes "joblib_load e ''Penguins.pkl'' = Inr m" and "p_predict ui"
  shows "penguins_main e ui =
    (let input_data = fst (get_user_input ui []);
         s = snd (get_user_input ui
                (penguins_setup_page [] @ [Expander ''How to Use This App'' PenguinsHowTo]))
             @ [Input (magnifier_sign @ '' Predict Species'')];
         r = penguins_make_prediction m input_data s
     in penguins_display_results (fst r) (snd r) @ [Sidebar PenguinsAbout])"
  using assms
  by (simp add: penguins_main_def penguins_load_model_def Let_def get_user_input_def
      split: prod.splits)

lemma penguins_page_defaults:
  "snd (get_user_input penguins_defaults
          (penguins_setup_page [] @ [Expander ''How to Use This App'' PenguinsHowTo])) =
   [Title (penguin_sign @ '' Palmer Penguins Species Predictor''), StaticMarkdown PenguinsIntro,
    Expander ''How to Use This App'' PenguinsHowTo,
    Subheader ''Physical Measurements'', Input ''Bill Length (mm)'', Input ''Bill Depth (mm)'',
    Input ''Flipper Length (mm)'', Subheader ''Additional Information'', Input ''Body Mass (g)'',
    Input ''Sex'', Input ''Island'']"
  by (simp add: get_user_input_def penguins_setup_page_def Let_def)

text \<open>
  C10, as stated, fails at the page: a model that answers 0 and a model whose
  \<^verbatim>\<open>predict\<close> raises give different pages on the default input. After the failure
  the page holds the error element of \<^verbatim>\<open>make_prediction\<close>; after the label 0 it
  holds no error element.
\<close>

theorem falsy_label_page_counterexample:
  "error_elements (penguins_main (env_with (constant_model (PInt 0) [])) penguins_defaults) = [] \<and>
   error_elements
     (penguins_main (env_with (raising_model (ValueError ''bad input''))) penguins_defaults) =
     [''Error making prediction: bad input''] \<and>
   penguins_main (env_with (constant_model (PInt 0) [])) penguins_defaults \<noteq>
   penguins_main (env_with (raising_model (ValueError ''bad input''))) penguins_defaults"
proof -
  have a: "penguins_main (env_with (constant_model (PInt 0) [])) penguins_defaults =
     snd (get_user_input penguins_defaults
          (penguins_setup_page [] @ [Expander ''How to Use This App'' PenguinsHowTo])) @
     [Input (magnifier_sign @ '' Predict Species''), Predict [default_penguin],
      Markdown ''---'', Subheader ''Prediction Results'', Sidebar PenguinsAbout]"
    by (simp add: penguins_main_def penguins_load_model_def env_with_def constant_model_def
        penguins_make_prediction_def penguins_display_results_def Let_def index0_def
        default_penguin_def get_user_input_def penguins_defaults_def)
  have b: "penguins_main (env_with (raising_model (ValueError ''bad input''))) penguins_defaults =
     snd (get_user_input penguins_defaults
          (penguins_setup_page [] @ [Expander ''How to Use This App'' PenguinsHowTo])) @
     [Input (magnifier_sign @ '' Predict Species''), Predict [default_penguin],
      Error ''Error making prediction: bad input'',
      Markdown ''---'', Subheader ''Prediction Results'', Sidebar PenguinsAbout]"
    by (simp add: penguins_main_def penguins_load_model_def env_with_def raising_model_def
        penguins_make_prediction_def penguins_prediction_failed_def penguins_display_results_def
        Let_def default_penguin_def get_user_input_def penguins_defaults_def)
  show ?thesis
    unfolding a b penguins_page_defaults
    by (simp add: error_elements_Nil error_elements_Cons)
qed

text \<open>
  C10, amended: when the label is falsy (as 0, the empty string and \<^verbatim>\<open>None\<close> are),
  \<^verbatim>\<open>display_results\<close> of the penguin page adds the separator and the heading and
  nothing else, so no success message and no species information, which is exactly
  what it adds for the \<^verbatim>\<open>None\<close> of a failed inference. The pages are still not the
  same: with the model loaded and the button pressed, the page of a failed inference
  is the page of a falsy label with one more element, the error element that
  \<^verbatim>\<open>make_prediction\<close> shows before the renderer runs.
\<close>

theorem falsy_label_renders_header_only:
  assumes "\<not> truthy p"
  shows "penguins_display_results p s = s @ [Markdown ''---'', Subheader ''Prediction Results''] \<and>
         penguins_display_results p s = penguins_display_results PNone s \<and>
         \<not> truthy (PInt 0) \<and> \<not> truthy (PStr []) \<and> \<not> truthy PNone \<and>
         (joblib_load e ''Penguins.pkl'' = Inr m \<and> p_predict ui \<and>
          predict m [fst (get_user_input ui [])] = Inr (p # ls) \<longrightarrow>
            penguins_main e ui =
              snd (get_user_input ui
                (penguins_setup_page [] @ [Expander ''How to Use This App'' PenguinsHowTo])) @
              [Input (magnifier_sign @ '' Predict Species''),
               Predict [fst (get_user_input ui [])],
               Markdown ''---'', Subheader ''Prediction Results'', Sidebar PenguinsAbout]) \<and>
         (joblib_load e ''Penguins.pkl'' = Inr m \<and> p_predict ui \<and>
          predict m [fst (get_user_input ui [])] = Inl ex \<longrightarrow>
            penguins_main e ui =
              snd (get_user_input ui
                (penguins_setup_page [] @ [Expander ''How to Use This App'' PenguinsHowTo])) @
              [Input (magnifier_sign @ '' Predict Species''),
               Predict [fst (get_user_input ui [])],
               Error (''Error making prediction: '' @ exc_str ex),
               Markdown ''---'', Subheader ''Prediction Results'', Sidebar PenguinsAbout])"
proof -
  have shown: "penguins_display_results p s = s @ [Markdown ''---'', Subheader ''Prediction Results'']" for s
    using assms by (simp add: penguins_display_results_def Let_def)
  have none: "penguins_display_results PNone s = s @ [Markdown ''---'', Subheader ''Prediction Results'']" for s
    by (simp add: penguins_display_results_def Let_def)
  have falsy: "penguins_main e ui =
              snd (get_user_input ui
                (penguins_setup_page [] @ [Expander ''How to Use This App'' PenguinsHowTo])) @
              [Input (magnifier_sign @ '' Predict Species''),
               Predict [fst (get_user_input ui [])],
               Markdown ''---'', Subheader ''Prediction Results'', Sidebar PenguinsAbout]"
    if "joblib_load e ''Penguins.pkl'' = Inr m" "p_predict ui"
       "predict m [fst (get_user_input ui [])] = Inr (p # ls)"
    unfolding penguins_main_pressed [OF that(1,2)] Let_def
    using that(3) by (simp add: penguins_make_prediction_def Let_def index0_def shown)
  have failed: "penguins_main e ui =
              snd (get_user_input ui
                (penguins_setup_page [] @ [Expander ''How to Use This App'' PenguinsHowTo])) @
              [Input (magnifier_sign @ '' Predict Species''),
               Predict [fst (get_user_input ui [])],
               Error (''Error making prediction: '' @ exc_str ex),
               Markdown ''---'', Subheader ''Prediction Results'', Sidebar PenguinsAbout]"
    if "joblib_load e ''Penguins.pkl'' = Inr m" "p_predict ui"
       "predict m [fst (get_user_input ui [])] = Inl ex"
    unfolding penguins_main_pressed [OF that(1,2)] Let_def
    using that(3)
    by (simp add: penguins_make_prediction_def penguins_prediction_failed_def Let_def none)
  show ?thesis
    using shown [of s] none [of s] falsy failed by simp
qed

theorem falsy_label_renders_header_only_witness:
  "penguins_display_results (PInt 0) [] = [Markdown ''---'', Subheader ''Prediction Results''] \<and>
   penguins_display_results PNone [] = [Markdown ''---'', Subheader ''Prediction Results''] \<and>
   penguins_main (env_with (constant_model (PInt 0) [])) penguins_defaults =
     snd (get_user_input penguins_defaults
            (penguins_setup_page [] @ [Expander ''How to Use This App'' PenguinsHowTo])) @
     [Input (magnifier_sign @ '' Predict Species''), Predict [default_penguin],
      Markdown ''---'', Subheader ''Prediction Results'', Sidebar PenguinsAbout] \<and>
   penguins_main (env_with (raising_model (ValueError ''bad input''))) penguins_defaults =
     snd (get_user_input penguins_defaults
            (penguins_setup_page [] @ [Expander ''How to Use This App'' PenguinsHowTo])) @
     [Input (magnifier_sign @ '' Predict Species''), Predict [default_penguin],
      Error ''Error making prediction: bad input'',
      Markdown ''---'', Subheader ''Prediction Results'', Sidebar PenguinsAbout]"
proof -
  have falsy: "\<not> truthy (PInt 0)"
    by simp
  have pressed: "p_predict penguins_defaults"
    by (simp add: penguins_defaults_def)
  from
    falsy_label_renders_header_only
      [OF falsy, where s = "[]" and e = "env_with (constant_model (PInt 0) [])"
         and m = "constant_model (PInt 0) []" and ui = penguins_defaults and ls = "[]"]
    falsy_label_renders_header_only
      [OF falsy, where s = "[]" and e = "env_with (raising_model (ValueError ''bad input''))"
         and m = "raising_model (ValueError ''bad input'')" and ui = penguins_defaults
         and ex = "ValueError ''bad input''"]
    pressed
  show ?thesis
    by (auto simp add: env_with_def constant_model_def raising_model_def default_penguin_def)
qed

section \<open>Load failure and unmapped labels\<close>

text \<open>
  On the three pages a failed load is caught by \<^verbatim>\<open>load_model\<close>: \<^verbatim>\<open>main\<close> shows the
  page header and one error element, calls neither the predictor nor the renderer, and
  returns normally.
\<close>

lemma titanic_main_load_failure:
  "joblib_load e ''Titanic.pkl'' = Inl ex \<Longrightarrow>
   titanic_main e ui =
     (titanic_setup_page [] @ [Error (''Error loading model: '' @ exc_str ex)], None)"
  by (simp add: titanic_main_def titanic_load_model_def)

lemma diabetes_main_load_failure:
  "joblib_load e ''model_el.pkl'' = Inl ex \<Longrightarrow>
   diabetes_main e ui =
     (diabetes_setup_page [] @ [Error (''Error loading model: '' @ exc_str ex)], None)"
  by (simp add: diabetes_main_def diabetes_load_model_def)

lemma penguins_main_load_failure:
  "joblib_load e ''Penguins.pkl'' = Inl ex \<Longrightarrow>
   penguins_main e ui =
     penguins_setup_page [] @ [Error (''Error loading model: '' @ exc_str ex)]"
  by (simp add: penguins_main_def penguins_load_model_def)

text \<open>
  C3 holds on the three pages and fails in \<^verbatim>\<open>app.py\<close>, which calls
  \<^verbatim>\<open>jbl.load(open('titanic_pipe.pkl'))\<close> outside any \<^verbatim>\<open>try\<close>: with the file missing,
  the exception leaves \<^verbatim>\<open>main\<close> after the title and the text, and the script shows
  no error element of its own.
\<close>

theorem app_load_failure_escapes:
  "app_main app_env_missing ui =
     ([Title ''Pipeline streamlit'', Text ''proviamo questo front-end''],
      Some (FileNotFoundError ''No such file or directory: titanic_pipe.pkl''))"
  by (simp add: app_main_def app_env_missing_def)










end
